theory Spec2Isabelle
  imports Main "HOL-Library.Sublist" "HOL-Library.AList"
begin

section \<open>Python strings and integers\<close>

text \<open>
  A Python \<open>str\<close> is modelled by its UTF-8 bytes: an ASCII character is one byte below
  128, and every other character is a sequence of bytes from 128 on. \<open>str.replace\<close> and
  \<open>str.split\<close> with ASCII arguments act on these bytes as they act on the characters.

  Two functions of Python read the Unicode character database, which is not part of the
  repository; it is a parameter \<open>u\<close> of every function that depends on it:
  \<^item> \<open>to_ascii u s\<close> is what \<open>int\<close> does first to a string \<open>s\<close> that is not ASCII:
    every decimal digit becomes its ASCII digit, every blank becomes a space;
  \<^item> \<open>decimal_at u s\<close> is the match of the regular expression \<open>\d\<close> at the start of a
    string \<open>s\<close> whose first character is not ASCII: the bytes of that character with the
    rest of the string if the character is a decimal digit, and nothing otherwise.
\<close>

record unicode =
  to_ascii :: "string \<Rightarrow> string"
  decimal_at :: "string \<Rightarrow> (string \<times> string) list"

definition is_ascii :: "char \<Rightarrow> bool" where
  "is_ascii c = ((of_char c :: nat) < 128)"

text \<open>The ASCII digits.\<close>

definition is_digit :: "char \<Rightarrow> bool" where
  "is_digit c = (48 \<le> (of_char c :: nat) \<and> (of_char c :: nat) \<le> 57)"

definition digit_val :: "char \<Rightarrow> nat" where
  "digit_val c = of_char c - 48"

definition digit_char :: "nat \<Rightarrow> char" where
  "digit_char n = char_of (48 + n mod 10)"

text \<open>
  The blanks that the parser of \<open>int\<close> skips at both ends of its ASCII input: the space
  and the characters 9 to 13.
\<close>

definition is_space :: "char \<Rightarrow> bool" where
  "is_space c = (let n = (of_char c :: nat) in n = 32 \<or> (9 \<le> n \<and> n \<le> 13))"

definition strip :: "string \<Rightarrow> string" where
  "strip s = rev (dropWhile is_space (rev (dropWhile is_space s)))"

text \<open>
  The digits of an \<open>int\<close> literal: a single underscore is allowed between two digits.
\<close>

fun digits_acc :: "nat \<Rightarrow> string \<Rightarrow> nat option" where
  "digits_acc acc [] = Some acc"
| "digits_acc acc [c] = (if is_digit c then Some (10 * acc + digit_val c) else None)"
| "digits_acc acc (c # d # ds) =
     (if is_digit c then digits_acc (10 * acc + digit_val c) (d # ds)
      else if c = CHR ''_'' \<and> is_digit d then digits_acc (10 * acc + digit_val d) ds
      else None)"

definition unsigned_int :: "string \<Rightarrow> nat option" where
  "unsigned_int s = (case s of [] \<Rightarrow> None
     | c # cs \<Rightarrow> if is_digit c then digits_acc (digit_val c) cs else None)"

text \<open>The parser of \<open>int\<close> on its ASCII input: blanks, a sign, the digits.\<close>

definition ascii_int :: "string \<Rightarrow> int option" where
  "ascii_int s = (case strip s of
       [] \<Rightarrow> None
     | c # cs \<Rightarrow>
         if c = CHR ''-'' then map_option (\<lambda>n. - int n) (unsigned_int cs)
         else if c = CHR ''+'' then map_option int (unsigned_int cs)
         else map_option int (unsigned_int (c # cs)))"

text \<open>\<open>int(s)\<close>: \<open>None\<close> is the \<open>ValueError\<close>.\<close>

definition py_int :: "unicode \<Rightarrow> string \<Rightarrow> int option" where
  "py_int u s = ascii_int (if list_all is_ascii s then s else to_ascii u s)"

text \<open>\<open>str(n)\<close> for an integer.\<close>

fun str_nat :: "nat \<Rightarrow> string" where
  "str_nat n = (if n < 10 then [digit_char n] else str_nat (n div 10) @ [digit_char n])"

declare str_nat.simps [simp del]

definition str_int :: "int \<Rightarrow> string" where
  "str_int i = (if i < 0 then CHR ''-'' # str_nat (nat (- i)) else str_nat (nat i))"

text \<open>\<open>sep.join(xs)\<close>.\<close>

fun join :: "string \<Rightarrow> string list \<Rightarrow> string" where
  "join sep [] = []"
| "join sep [x] = x"
| "join sep (x # y # ys) = x @ sep @ join sep (y # ys)"

section \<open>The schedule store of \<open>database.py\<close>\<close>

text \<open>
  The tables \<open>groups\<close> and \<open>scheduled_messages\<close> are lists of rows in rowid order.
  \<open>sm_seq\<close> is the AUTOINCREMENT counter of \<open>scheduled_messages\<close>. A statement that
  SQLite rejects makes each method log and return its failure value; the model is of
  the statements that run.
\<close>

record group_row =
  g_chat_id :: int
  g_group_name :: string
  g_timezone :: string

record scheduled_message =
  sm_id :: int
  sm_chat_id :: int
  sm_message_type :: string
  sm_schedule_time :: string
  sm_message_template :: string
  sm_target_date :: "string option"
  sm_title :: "string option"
  sm_is_active :: bool

record BotDatabase =
  groups :: "group_row list"
  scheduled_messages :: "scheduled_message list"
  sm_seq :: int

text \<open>A row of the join that \<open>get_scheduled_messages\<close> returns as a dict.\<close>

record msg_config =
  cfg_row :: scheduled_message
  cfg_timezone :: string
  cfg_group_name :: string

definition add_group :: "BotDatabase \<Rightarrow> int \<Rightarrow> string \<Rightarrow> string \<Rightarrow> BotDatabase \<times> bool" where
  "add_group db cid name tz =
     (db\<lparr>groups := filter (\<lambda>g. g_chat_id g \<noteq> cid) (groups db)
                      @ [\<lparr>g_chat_id = cid, g_group_name = name, g_timezone = tz\<rparr>]\<rparr>, True)"

definition add_scheduled_message ::
  "BotDatabase \<Rightarrow> int \<Rightarrow> string \<Rightarrow> string \<Rightarrow> string \<Rightarrow> string option \<Rightarrow> string option
     \<Rightarrow> BotDatabase \<times> bool" where
  "add_scheduled_message db cid mtype stime template target title =
     (let new_id = sm_seq db + 1 in
      (db\<lparr>scheduled_messages := scheduled_messages db
             @ [\<lparr>sm_id = new_id, sm_chat_id = cid, sm_message_type = mtype,
                 sm_schedule_time = stime, sm_message_template = template,
                 sm_target_date = target, sm_title = title, sm_is_active = True\<rparr>],
           sm_seq := new_id\<rparr>, True))"

text \<open>
  \<open>get_scheduled_messages(chat_id=None)\<close>: the active rows joined with their group;
  \<open>if chat_id:\<close> takes \<open>None\<close> and \<open>0\<close> to the unfiltered query.
\<close>

definition get_scheduled_messages :: "BotDatabase \<Rightarrow> int option \<Rightarrow> msg_config list" where
  "get_scheduled_messages db cid =
     concat (map (\<lambda>r. map (\<lambda>g. \<lparr>cfg_row = r, cfg_timezone = g_timezone g,
                                   cfg_group_name = g_group_name g\<rparr>)
                           (filter (\<lambda>g. g_chat_id g = sm_chat_id r) (groups db)))
                 (filter (\<lambda>r. sm_is_active r \<and>
                            (case cid of None \<Rightarrow> True
                             | Some c \<Rightarrow> c = 0 \<or> sm_chat_id r = c))
                         (scheduled_messages db)))"

text \<open>
  \<open>remove_scheduled_message\<close>: \<open>UPDATE scheduled_messages SET is_active = 0
  WHERE id = ? AND chat_id = ?\<close>, then \<open>cursor.rowcount > 0\<close>. SQLite counts every row
  that the \<open>WHERE\<close> clause selects, whether or not the stored value changes.
\<close>

definition remove_scheduled_message :: "BotDatabase \<Rightarrow> int \<Rightarrow> int \<Rightarrow> BotDatabase \<times> bool" where
  "remove_scheduled_message db message_id cid =
     (let hit = (\<lambda>r. sm_id r = message_id \<and> sm_chat_id r = cid);
          rowcount = length (filter hit (scheduled_messages db))
      in (db\<lparr>scheduled_messages :=
                map (\<lambda>r. if hit r then r\<lparr>sm_is_active := False\<rparr> else r) (scheduled_messages db)\<rparr>,
          rowcount > 0))"

definition get_group_timezone :: "BotDatabase \<Rightarrow> int \<Rightarrow> string" where
  "get_group_timezone db cid =
     (case filter (\<lambda>g. g_chat_id g = cid) (groups db) of
        [] \<Rightarrow> ''UTC'' | g # _ \<Rightarrow> g_timezone g)"

definition update_group_timezone :: "BotDatabase \<Rightarrow> int \<Rightarrow> string \<Rightarrow> BotDatabase \<times> bool" where
  "update_group_timezone db cid tz =
     (db\<lparr>groups := map (\<lambda>g. if g_chat_id g = cid then g\<lparr>g_timezone := tz\<rparr> else g) (groups db)\<rparr>,
      filter (\<lambda>g. g_chat_id g = cid) (groups db) \<noteq> [])"

definition empty_database :: BotDatabase where
  "empty_database = \<lparr>groups = [], scheduled_messages = [], sm_seq = 0\<rparr>"

section \<open>Dates, clocks and time zones\<close>

text \<open>
  An instant is a number of seconds since the Unix epoch. A \<open>datetime.date\<close> is
  represented by its proleptic Gregorian ordinal (\<open>date.toordinal()\<close>, day 1 is
  0001-01-01), so comparing two dates compares their ordinals and subtracting them gives
  the \<open>days\<close> of the \<open>timedelta\<close>. Year, month and day are read off with
  \<open>ord2ymd\<close>, which follows \<open>_ord2ymd\<close> of the \<open>datetime\<close> module, as \<open>ymd2ord\<close>
  follows \<open>_ymd2ord\<close>. Clock readings have a resolution of one second.
\<close>

definition is_leap :: "int \<Rightarrow> bool" where
  "is_leap y = (y mod 4 = 0 \<and> (y mod 100 \<noteq> 0 \<or> y mod 400 = 0))"

definition days_in_month :: "int \<Rightarrow> int \<Rightarrow> int" where
  "days_in_month y m =
     (if m = 2 then (if is_leap y then 29 else 28)
      else if m = 4 \<or> m = 6 \<or> m = 9 \<or> m = 11 then 30 else 31)"

definition days_before_year :: "int \<Rightarrow> int" where
  "days_before_year y = (y - 1) * 365 + (y - 1) div 4 - (y - 1) div 100 + (y - 1) div 400"

definition DAYS_BEFORE_MONTH :: "int \<Rightarrow> int" where
  "DAYS_BEFORE_MONTH m =
     (if m = 1 then 0 else if m = 2 then 31 else if m = 3 then 59 else if m = 4 then 90
      else if m = 5 then 120 else if m = 6 then 151 else if m = 7 then 181
      else if m = 8 then 212 else if m = 9 then 243 else if m = 10 then 273
      else if m = 11 then 304 else 334)"

definition days_before_month :: "int \<Rightarrow> int \<Rightarrow> int" where
  "days_before_month y m = DAYS_BEFORE_MONTH m + (if m > 2 \<and> is_leap y then 1 else 0)"

definition ymd2ord :: "int \<Rightarrow> int \<Rightarrow> int \<Rightarrow> int" where
  "ymd2ord y m d = days_before_year y + days_before_month y m + d"

definition ord2ymd :: "int \<Rightarrow> int \<times> int \<times> int" where
  "ord2ymd ordinal =
     (let n0 = ordinal - 1;
          n400 = n0 div 146097; na = n0 mod 146097;
          n100 = na div 36524; nb = na mod 36524;
          n4 = nb div 1461; nc = nb mod 1461;
          n1 = nc div 365; n = nc mod 365;
          year = n400 * 400 + 1 + n100 * 100 + n4 * 4 + n1
      in if n1 = 4 \<or> n100 = 4 then (year - 1, 12, 31)
         else
           let leapyear = (n1 = 3 \<and> (n4 \<noteq> 24 \<or> n100 = 3));
               month = (n + 50) div 32;
               preceding = DAYS_BEFORE_MONTH month + (if month > 2 \<and> leapyear then 1 else 0)
           in if preceding > n
              then let month' = month - 1;
                       preceding' = preceding -
                         ((if month' = 2 then 28
                           else if month' = 4 \<or> month' = 6 \<or> month' = 9 \<or> month' = 11 then 30
                           else 31)
                          + (if month' = 2 \<and> leapyear then 1 else 0))
                   in (year, month', n - preceding' + 1)
              else (year, month, n - preceding + 1))"

text \<open>\<open>datetime.date(y, m, d)\<close>: \<open>None\<close> is the \<open>ValueError\<close> of an invalid date.\<close>

definition mk_date :: "int \<Rightarrow> int \<Rightarrow> int \<Rightarrow> int option" where
  "mk_date y m d =
     (if 1 \<le> y \<and> y \<le> 9999 \<and> 1 \<le> m \<and> m \<le> 12 \<and> 1 \<le> d \<and> d \<le> days_in_month y m
      then Some (ymd2ord y m d) else None)"

record dt_time =
  hour :: int
  minute :: int

text \<open>A local date and time: what \<open>datetime.now(tz)\<close> shows.\<close>

record datetime =
  dt_date :: int
  dt_hour :: int
  dt_minute :: int
  dt_second :: int

text \<open>
  \<open>pytz\<close>: a zone gives the UTC offset, in seconds, that is in force at an instant;
  \<open>pytz.timezone(name)\<close> is a lookup whose \<open>None\<close> is \<open>UnknownTimeZoneError\<close>. The zone
  table is a parameter of every function that calls \<open>pytz\<close>.
\<close>

type_synonym tzinfo = "int \<Rightarrow> int"
type_synonym pytz = "string \<Rightarrow> tzinfo option"

definition EPOCH_ORDINAL :: int where
  "EPOCH_ORDINAL = 719163"

text \<open>\<open>datetime.now(tz)\<close> and \<open>t.astimezone(tz)\<close> at the instant \<open>t\<close>.\<close>

definition astimezone :: "tzinfo \<Rightarrow> int \<Rightarrow> datetime" where
  "astimezone tz t =
     (let s = t + tz t in
      \<lparr>dt_date = s div 86400 + EPOCH_ORDINAL,
       dt_hour = (s mod 86400) div 3600,
       dt_minute = (s mod 3600) div 60,
       dt_second = s mod 60\<rparr>)"

definition dt_year :: "datetime \<Rightarrow> int" where
  "dt_year dt = fst (ord2ymd (dt_date dt))"

definition dt_month :: "datetime \<Rightarrow> int" where
  "dt_month dt = fst (snd (ord2ymd (dt_date dt)))"

definition dt_day :: "datetime \<Rightarrow> int" where
  "dt_day dt = snd (snd (ord2ymd (dt_date dt)))"

subsection \<open>\<open>strftime\<close>\<close>

definition zfill :: "nat \<Rightarrow> string \<Rightarrow> string" where
  "zfill w s = replicate (w - length s) CHR ''0'' @ s"

definition day_name :: "int \<Rightarrow> string" where
  "day_name wd =
     (if wd = 0 then ''Monday'' else if wd = 1 then ''Tuesday'' else if wd = 2 then ''Wednesday''
      else if wd = 3 then ''Thursday'' else if wd = 4 then ''Friday''
      else if wd = 5 then ''Saturday'' else ''Sunday'')"

definition month_name :: "int \<Rightarrow> string" where
  "month_name m =
     (if m = 1 then ''January'' else if m = 2 then ''February'' else if m = 3 then ''March''
      else if m = 4 then ''April'' else if m = 5 then ''May'' else if m = 6 then ''June''
      else if m = 7 then ''July'' else if m = 8 then ''August'' else if m = 9 then ''September''
      else if m = 10 then ''October'' else if m = 11 then ''November'' else ''December'')"

definition weekday :: "int \<Rightarrow> int" where
  "weekday ordinal = (ordinal + 6) mod 7"

text \<open>The directives that the source uses: \<open>%Y\<close>, \<open>%m\<close>, \<open>%d\<close>, \<open>%H\<close>, \<open>%M\<close>, \<open>%A\<close>, \<open>%B\<close>.\<close>

definition fmt_Y :: "datetime \<Rightarrow> string" where
  "fmt_Y dt = zfill 4 (str_int (dt_year dt))"

definition fmt_m :: "datetime \<Rightarrow> string" where
  "fmt_m dt = zfill 2 (str_int (dt_month dt))"

definition fmt_d :: "datetime \<Rightarrow> string" where
  "fmt_d dt = zfill 2 (str_int (dt_day dt))"

definition fmt_H :: "datetime \<Rightarrow> string" where
  "fmt_H dt = zfill 2 (str_int (dt_hour dt))"

definition fmt_M :: "datetime \<Rightarrow> string" where
  "fmt_M dt = zfill 2 (str_int (dt_minute dt))"

definition fmt_A :: "datetime \<Rightarrow> string" where
  "fmt_A dt = day_name (weekday (dt_date dt))"

definition fmt_B :: "datetime \<Rightarrow> string" where
  "fmt_B dt = month_name (dt_month dt)"

subsection \<open>\<open>strptime\<close>\<close>

text \<open>
  \<open>datetime.strptime\<close> compiles the format into a regular expression, matches it at
  the start of the string, and raises \<open>ValueError\<close> when nothing matches or when
  input is left over. Each directive is an alternation; a matcher below returns the
  alternatives that match, in the order in which the regular expression tries them,
  each with the rest of the input. A class such as \<open>[0-5]\<close> matches ASCII characters
  only; \<open>\d\<close> matches every decimal digit of Unicode.
\<close>

definition in_range :: "char \<Rightarrow> char \<Rightarrow> char \<Rightarrow> bool" where
  "in_range lo hi c = ((of_char lo :: nat) \<le> of_char c \<and> (of_char c :: nat) \<le> of_char hi)"

definition re_chr :: "(char \<Rightarrow> bool) \<Rightarrow> string \<Rightarrow> (string \<times> string) list" where
  "re_chr p s = (case s of a # r \<Rightarrow> if p a then [([a], r)] else [] | _ \<Rightarrow> [])"

definition re_digit :: "unicode \<Rightarrow> string \<Rightarrow> (string \<times> string) list" where
  "re_digit u s = (case s of
       [] \<Rightarrow> []
     | a # r \<Rightarrow> if is_ascii a then (if is_digit a then [([a], r)] else []) else decimal_at u s)"

definition re_seq ::
  "(string \<Rightarrow> (string \<times> string) list) \<Rightarrow> (string \<Rightarrow> (string \<times> string) list) \<Rightarrow> string
     \<Rightarrow> (string \<times> string) list" where
  "re_seq p q s = concat (map (\<lambda>(x, r). map (\<lambda>(y, r'). (x @ y, r')) (q r)) (p s))"

definition re_lit :: "char \<Rightarrow> string \<Rightarrow> string list" where
  "re_lit c s = (case s of a # r \<Rightarrow> if a = c then [r] else [] | _ \<Rightarrow> [])"

text \<open>\<open>%Y\<close> is \<open>\d\d\d\d\<close>.\<close>

definition re_Y :: "unicode \<Rightarrow> string \<Rightarrow> (string \<times> string) list" where
  "re_Y u s = re_seq (re_digit u) (re_seq (re_digit u) (re_seq (re_digit u) (re_digit u))) s"

text \<open>\<open>%m\<close> is \<open>1[0-2]|0[1-9]|[1-9]\<close>.\<close>

definition re_m :: "string \<Rightarrow> (string \<times> string) list" where
  "re_m s = re_seq (re_chr (\<lambda>c. c = CHR ''1'')) (re_chr (in_range CHR ''0'' CHR ''2'')) s
          @ re_seq (re_chr (\<lambda>c. c = CHR ''0'')) (re_chr (in_range CHR ''1'' CHR ''9'')) s
          @ re_chr (in_range CHR ''1'' CHR ''9'') s"

text \<open>\<open>%d\<close> is \<open>3[0-1]|[1-2]\d|0[1-9]|[1-9]| [1-9]\<close>.\<close>

definition re_d :: "unicode \<Rightarrow> string \<Rightarrow> (string \<times> string) list" where
  "re_d u s = re_seq (re_chr (\<lambda>c. c = CHR ''3'')) (re_chr (in_range CHR ''0'' CHR ''1'')) s
          @ re_seq (re_chr (in_range CHR ''1'' CHR ''2'')) (re_digit u) s
          @ re_seq (re_chr (\<lambda>c. c = CHR ''0'')) (re_chr (in_range CHR ''1'' CHR ''9'')) s
          @ re_chr (in_range CHR ''1'' CHR ''9'') s
          @ re_seq (re_chr (\<lambda>c. c = CHR '' '')) (re_chr (in_range CHR ''1'' CHR ''9'')) s"

text \<open>\<open>%H\<close> is \<open>2[0-3]|[0-1]\d|\d\<close> and \<open>%M\<close> is \<open>[0-5]\d|\d\<close>.\<close>

definition re_H :: "unicode \<Rightarrow> string \<Rightarrow> (string \<times> string) list" where
  "re_H u s = re_seq (re_chr (\<lambda>c. c = CHR ''2'')) (re_chr (in_range CHR ''0'' CHR ''3'')) s
          @ re_seq (re_chr (in_range CHR ''0'' CHR ''1'')) (re_digit u) s
          @ re_digit u s"

definition re_M :: "unicode \<Rightarrow> string \<Rightarrow> (string \<times> string) list" where
  "re_M u s = re_seq (re_chr (in_range CHR ''0'' CHR ''5'')) (re_digit u) s @ re_digit u s"

text \<open>
  \<open>datetime.strptime(s, '%Y-%m-%d')\<close>, as the ordinal of the date: the first way to
  match the whole format decides, input left over is an error, each group is
  converted with \<open>int\<close>, and a day that the month does not have is an error.
\<close>

definition strptime_Ymd :: "unicode \<Rightarrow> string \<Rightarrow> int option" where
  "strptime_Ymd u s =
     (case concat (map (\<lambda>(y, r1). concat (map (\<lambda>r2. concat (map (\<lambda>(m, r3).
               concat (map (\<lambda>r4. map (\<lambda>(d, r5). (y, m, d, r5)) (re_d u r4)) (re_lit CHR ''-'' r3)))
               (re_m r2))) (re_lit CHR ''-'' r1))) (re_Y u s)) of
        [] \<Rightarrow> None
      | (y, m, d, rest) # _ \<Rightarrow>
          if rest \<noteq> [] then None
          else (case (py_int u y, py_int u m, py_int u d) of
                  (Some year, Some month, Some day) \<Rightarrow> mk_date year month day
                | _ \<Rightarrow> None))"

text \<open>
  \<open>datetime.strptime(s, '%H:%M')\<close>, as hour and minute; the constructor of
  \<open>datetime\<close> refuses an hour outside 0..23 and a minute outside 0..59.
\<close>

definition strptime_HM :: "unicode \<Rightarrow> string \<Rightarrow> (int \<times> int) option" where
  "strptime_HM u s =
     (case concat (map (\<lambda>(h, r1). concat (map (\<lambda>r2. map (\<lambda>(m, r3). (h, m, r3)) (re_M u r2))
                                             (re_lit CHR '':'' r1))) (re_H u s)) of
        [] \<Rightarrow> None
      | (h, m, rest) # _ \<Rightarrow>
          if rest \<noteq> [] then None
          else (case (py_int u h, py_int u m) of
                  (Some hh, Some mm) \<Rightarrow>
                    if 0 \<le> hh \<and> hh \<le> 23 \<and> 0 \<le> mm \<and> mm \<le> 59 then Some (hh, mm) else None
                | _ \<Rightarrow> None))"

section \<open>\<open>telegram_bot.py\<close>: parsing\<close>

text \<open>\<open>s.split(sep, 1)\<close> for a separator of one character.\<close>

definition split1 :: "char \<Rightarrow> string \<Rightarrow> string list" where
  "split1 c s = (if c \<in> set s then [takeWhile (\<lambda>x. x \<noteq> c) s, tl (dropWhile (\<lambda>x. x \<noteq> c) s)]
                 else [s])"

text \<open>
  \<open>parse_hhmm\<close>: unpacking a split without a colon raises, \<open>int\<close> may raise, and every
  exception becomes \<open>None\<close>.
\<close>

definition parse_hhmm :: "unicode \<Rightarrow> string \<Rightarrow> dt_time option" where
  "parse_hhmm u hhmm =
     (case split1 CHR '':'' hhmm of
        [hour_str, minute_str] \<Rightarrow>
          (case py_int u hour_str of
             None \<Rightarrow> None
           | Some h \<Rightarrow>
               (case py_int u minute_str of
                  None \<Rightarrow> None
                | Some m \<Rightarrow>
                    if \<not> (0 \<le> h \<and> h < 24 \<and> 0 \<le> m \<and> m < 60) then None
                    else Some \<lparr>hour = h, minute = m\<rparr>))
      | _ \<Rightarrow> None)"

definition parse_date :: "unicode \<Rightarrow> string \<Rightarrow> int option" where
  "parse_date u datestr = strptime_Ymd u datestr"

section \<open>\<open>telegram_bot.py\<close>: the scheduler bot\<close>

record ScheduleRecord =
  rec_id :: int
  chat_id :: int
  schedule_type :: string
  time_str :: string
  end_date_str :: "string option"
  message :: string
  timezone :: string

datatype callback = daily_cb | countdown_cb | repeating_cb

text \<open>
  What \<open>job_queue.run_daily\<close> is given: the callback, the time of day with its zone,
  the name and the schedule id in \<open>data\<close>.
\<close>

record Job =
  job_callback :: callback
  job_time :: dt_time
  job_tzinfo :: string
  job_name :: string
  job_schedule_id :: int

text \<open>
  The bot's state: the tables \<open>schedules\<close> (with its AUTOINCREMENT counter) and
  \<open>chat_timezones\<close>, the jobs in the job queue, and the dict \<open>active_jobs\<close>. Dicts
  and the timezone table are association lists.
\<close>

record SchedulerBot =
  schedules :: "ScheduleRecord list"
  schedules_seq :: int
  chat_timezones :: "(int \<times> string) list"
  job_queue :: "Job list"
  active_jobs :: "(int \<times> Job) list"

text \<open>
  What a handler does to the outside: a reply to the command, a call of
  \<open>bot.send_message\<close>, a log record. The notifier is a parameter
  \<open>deliver chat text\<close>, false when \<open>send_message\<close> raises. A handler returns the new
  state, its events in order and the exception that leaves it, if any.
\<close>

datatype event = Reply string | Send int string | Log string

datatype exn = UnknownTimeZoneError string | TelegramError

type_synonym outcome = "SchedulerBot \<times> event list \<times> exn option"

definition get_chat_timezone :: "SchedulerBot \<Rightarrow> int \<Rightarrow> string" where
  "get_chat_timezone st cid = (case map_of (chat_timezones st) cid of Some tz \<Rightarrow> tz | None \<Rightarrow> ''UTC'')"

definition schedule_job ::
  "unicode \<Rightarrow> pytz \<Rightarrow> ScheduleRecord \<Rightarrow> SchedulerBot \<Rightarrow> outcome" where
  "schedule_job u tzdb rec st =
     (case tzdb (timezone rec) of
        None \<Rightarrow> (st, [], Some (UnknownTimeZoneError (timezone rec)))
      | Some tz \<Rightarrow>
          (case parse_hhmm u (time_str rec) of
             None \<Rightarrow> (st, [Log (''Invalid time string stored in DB: '' @ time_str rec)], None)
           | Some t \<Rightarrow>
               (case (if schedule_type rec = ''daily'' then Some daily_cb
                      else if schedule_type rec = ''countdown'' then Some countdown_cb
                      else if schedule_type rec = ''repeating'' then Some repeating_cb
                      else None) of
                  None \<Rightarrow> (st, [Log (''Unknown schedule type: '' @ schedule_type rec)], None)
                | Some cb \<Rightarrow>
                    (let job = \<lparr>job_callback = cb,
                                job_time = \<lparr>hour = hour t, minute = minute t\<rparr>,
                                job_tzinfo = timezone rec,
                                job_name = ''schedule_'' @ str_int (rec_id rec),
                                job_schedule_id = rec_id rec\<rparr>
                     in (st\<lparr>job_queue := job_queue st @ [job],
                            active_jobs := AList.update (rec_id rec) job (active_jobs st)\<rparr>,
                         [Log (''Scheduled job '' @ str_int (rec_id rec) @ '' of type ''
                               @ schedule_type rec @ '' for chat '' @ str_int (chat_id rec))],
                         None)))))"

fun restore_rows ::
  "unicode \<Rightarrow> pytz \<Rightarrow> ScheduleRecord list \<Rightarrow> SchedulerBot \<Rightarrow> outcome" where
  "restore_rows u tzdb [] st = (st, [], None)"
| "restore_rows u tzdb (row # rows) st =
     (case schedule_job u tzdb row st of
        (st1, ev1, Some e) \<Rightarrow> (st1, ev1, Some e)
      | (st1, ev1, None) \<Rightarrow>
          (case restore_rows u tzdb rows st1 of (st2, ev2, x) \<Rightarrow> (st2, ev1 @ ev2, x)))"

definition restore_schedules :: "unicode \<Rightarrow> pytz \<Rightarrow> SchedulerBot \<Rightarrow> outcome" where
  "restore_schedules u tzdb st = restore_rows u tzdb (schedules st) st"

text \<open>
  A stop of the process loses the job queue and \<open>active_jobs\<close>; the database file keeps
  the tables. The next process begins in \<open>disk st\<close>, with no jobs, and calls
  \<open>_restore_schedules\<close>.
\<close>

definition disk :: "SchedulerBot \<Rightarrow> SchedulerBot" where
  "disk st = st\<lparr>job_queue := [], active_jobs := []\<rparr>"

text \<open>The \<open>INSERT INTO schedules\<close> of the three create commands, with \<open>cur.lastrowid\<close>.\<close>

definition insert_schedule ::
  "SchedulerBot \<Rightarrow> int \<Rightarrow> string \<Rightarrow> string \<Rightarrow> string option \<Rightarrow> string \<Rightarrow> string
     \<Rightarrow> SchedulerBot \<times> int" where
  "insert_schedule st cid stype tstr edate msg tzname =
     (let schedule_id = schedules_seq st + 1 in
      (st\<lparr>schedules := schedules st
             @ [\<lparr>rec_id = schedule_id, chat_id = cid, schedule_type = stype, time_str = tstr,
                 end_date_str = edate, message = msg, timezone = tzname\<rparr>],
           schedules_seq := schedule_id\<rparr>, schedule_id))"

definition then_reply :: "outcome \<Rightarrow> string \<Rightarrow> outcome" where
  "then_reply r text = (case r of
       (st, ev, Some e) \<Rightarrow> (st, ev, Some e)
     | (st, ev, None) \<Rightarrow> (st, ev @ [Reply text], None))"

definition setschedule ::
  "unicode \<Rightarrow> pytz \<Rightarrow> int \<Rightarrow> string list \<Rightarrow> SchedulerBot \<Rightarrow> outcome" where
  "setschedule u tzdb cid args st =
     (if length args < 2 then (st, [Reply ''Usage: /setschedule HH:MM message''], None)
      else
        let tstr = hd args; msg = join '' '' (tl args) in
        case parse_hhmm u tstr of
          None \<Rightarrow> (st, [Reply ''Invalid time format. Use HH:MM (24h).''], None)
        | Some t \<Rightarrow>
            (let timezone_name = get_chat_timezone st cid;
                 (st1, schedule_id) = insert_schedule st cid ''daily'' tstr None msg timezone_name;
                 rec = \<lparr>rec_id = schedule_id, chat_id = cid, schedule_type = ''daily'',
                        time_str = tstr, end_date_str = None, message = msg,
                        timezone = timezone_name\<rparr>
             in then_reply (schedule_job u tzdb rec st1)
                  (''Scheduled daily message (ID '' @ str_int schedule_id @ '') at '' @ tstr @ ''.'')))"

definition setcountdown ::
  "unicode \<Rightarrow> pytz \<Rightarrow> int \<Rightarrow> string list \<Rightarrow> SchedulerBot \<Rightarrow> outcome" where
  "setcountdown u tzdb cid args st =
     (if length args < 3 then (st, [Reply ''Usage: /setcountdown HH:MM YYYY-MM-DD title''], None)
      else
        let tstr = args ! 0; date_str = args ! 1; title = join '' '' (drop 2 args) in
        if parse_hhmm u tstr = None \<or> parse_date u date_str = None
        then (st, [Reply ''Invalid time or date. Time format: HH:MM, date format: YYYY-MM-DD.''], None)
        else
          (let timezone_name = get_chat_timezone st cid;
               (st1, schedule_id) =
                  insert_schedule st cid ''countdown'' tstr (Some date_str) title timezone_name;
               rec = \<lparr>rec_id = schedule_id, chat_id = cid, schedule_type = ''countdown'',
                      time_str = tstr, end_date_str = Some date_str, message = title,
                      timezone = timezone_name\<rparr>
           in then_reply (schedule_job u tzdb rec st1)
                (''Scheduled daily countdown (ID '' @ str_int schedule_id @ '') for '' @ title
                 @ '' on '' @ date_str @ '' at '' @ tstr @ ''.'')))"

definition setrepeating ::
  "unicode \<Rightarrow> pytz \<Rightarrow> int \<Rightarrow> string list \<Rightarrow> SchedulerBot \<Rightarrow> outcome" where
  "setrepeating u tzdb cid args st =
     (if length args < 3 then (st, [Reply ''Usage: /setrepeating HH:MM YYYY-MM-DD message''], None)
      else
        let tstr = args ! 0; edate = args ! 1; msg = join '' '' (drop 2 args) in
        if parse_hhmm u tstr = None \<or> parse_date u edate = None
        then (st, [Reply ''Invalid time or date. Time format: HH:MM, date format: YYYY-MM-DD.''], None)
        else
          (let timezone_name = get_chat_timezone st cid;
               (st1, schedule_id) =
                  insert_schedule st cid ''repeating'' tstr (Some edate) msg timezone_name;
               rec = \<lparr>rec_id = schedule_id, chat_id = cid, schedule_type = ''repeating'',
                      time_str = tstr, end_date_str = Some edate, message = msg,
                      timezone = timezone_name\<rparr>
           in then_reply (schedule_job u tzdb rec st1)
                (''Scheduled repeating message (ID '' @ str_int schedule_id @ '') every day at ''
                 @ tstr @ '' until '' @ edate @ ''.'')))"

text \<open>
  \<open>job.schedule_removal()\<close> takes the job out of the queue; \<open>active_jobs.pop(id, None)\<close>
  takes it out of the dict.
\<close>

definition pop_job :: "int \<Rightarrow> SchedulerBot \<Rightarrow> SchedulerBot" where
  "pop_job schedule_id st =
     (case map_of (active_jobs st) schedule_id of
        None \<Rightarrow> st
      | Some job \<Rightarrow> st\<lparr>job_queue := remove1 job (job_queue st),
                         active_jobs := AList.delete schedule_id (active_jobs st)\<rparr>)"

text \<open>
  \<open>removeschedule\<close>: \<open>DELETE FROM schedules WHERE id = ?\<close>. The chat that issues the
  command is an argument of the handler; the statement does not use it.
\<close>

definition removeschedule ::
  "unicode \<Rightarrow> int \<Rightarrow> string list \<Rightarrow> SchedulerBot \<Rightarrow> outcome" where
  "removeschedule u cid args st =
     (if length args \<noteq> 1 then (st, [Reply ''Usage: /removeschedule ID''], None)
      else case py_int u (hd args) of
        None \<Rightarrow> (st, [Reply ''ID must be a number.''], None)
      | Some schedule_id \<Rightarrow>
          (let deleted = length (filter (\<lambda>r. rec_id r = schedule_id) (schedules st));
               st1 = st\<lparr>schedules := filter (\<lambda>r. rec_id r \<noteq> schedule_id) (schedules st)\<rparr>;
               st2 = pop_job schedule_id st1
           in if deleted \<noteq> 0
              then (st2, [Reply (''Removed schedule '' @ str_int schedule_id @ ''.'')], None)
              else (st2, [Reply (''Schedule '' @ str_int schedule_id @ '' not found.'')], None)))"

text \<open>\<open>settimezone\<close>; \<open>all_timezones\<close> is \<open>pytz.all_timezones\<close>.\<close>

definition settimezone :: "string list \<Rightarrow> int \<Rightarrow> string list \<Rightarrow> SchedulerBot \<Rightarrow> outcome" where
  "settimezone all_timezones cid args st =
     (if length args \<noteq> 1
      then (st, [Reply ''Usage: /settimezone TIMEZONE (e.g. America/Los_Angeles)''], None)
      else let tz_name = hd args in
        if tz_name \<notin> set all_timezones then (st, [Reply ''Invalid timezone name.''], None)
        else (st\<lparr>chat_timezones := AList.update cid tz_name (chat_timezones st)\<rparr>,
              [Reply (''Timezone updated to '' @ tz_name @ ''.'')], None))"

definition cancel_schedule :: "int \<Rightarrow> SchedulerBot \<Rightarrow> SchedulerBot \<times> event list" where
  "cancel_schedule schedule_id st =
     (pop_job schedule_id (st\<lparr>schedules := filter (\<lambda>r. rec_id r \<noteq> schedule_id) (schedules st)\<rparr>),
      [Log (''Schedule '' @ str_int schedule_id @ '' completed and removed.'')])"

subsection \<open>Templates\<close>

text \<open>\<open>s.replace(old, new)\<close>: the occurrences of \<open>old\<close> from the left, without overlap.\<close>

function str_replace :: "string \<Rightarrow> string \<Rightarrow> string \<Rightarrow> string" where
  "str_replace old new [] = (if old = [] then new else [])"
| "str_replace old new (c # cs) =
     (if old = [] then new @ c # str_replace old new cs
      else if prefix old (c # cs) then new @ str_replace old new (drop (length old) (c # cs))
      else c # str_replace old new cs)"
  by pat_completeness auto
termination
  by (relation "measure (\<lambda>(old, new, s). length s)") auto

definition replacements :: "datetime \<Rightarrow> (string \<times> string) list" where
  "replacements dt =
     [(''{date}'', fmt_Y dt @ ''-'' @ fmt_m dt @ ''-'' @ fmt_d dt),
      (''{time}'', fmt_H dt @ '':'' @ fmt_M dt),
      (''{day}'', fmt_A dt),
      (''{month}'', fmt_B dt),
      (''{year}'', fmt_Y dt)]"

definition apply_templates :: "string \<Rightarrow> datetime \<Rightarrow> string" where
  "apply_templates msg dt =
     foldl (\<lambda>result (key, value). str_replace key value result) msg (replacements dt)"

subsection \<open>Job callbacks\<close>

text \<open>
  A callback runs for the schedule id in its job's data, at the instant \<open>now\<close> that
  the clock shows; each \<open>datetime.now\<close> in one run reads that instant.
\<close>

definition send_or_warn :: "(int \<Rightarrow> string \<Rightarrow> bool) \<Rightarrow> int \<Rightarrow> string \<Rightarrow> string \<Rightarrow> event list" where
  "send_or_warn deliver cid text warning =
     (if deliver cid text then [Send cid text] else [Send cid text, Log warning])"

definition daily_callback ::
  "pytz \<Rightarrow> (int \<Rightarrow> string \<Rightarrow> bool) \<Rightarrow> int \<Rightarrow> int \<Rightarrow> SchedulerBot \<Rightarrow> outcome" where
  "daily_callback tzdb deliver now schedule_id st =
     (case filter (\<lambda>r. rec_id r = schedule_id \<and> schedule_type r = ''daily'') (schedules st) of
        [] \<Rightarrow> (st, [], None)
      | row # _ \<Rightarrow>
          (case tzdb (get_chat_timezone st (chat_id row)) of
             None \<Rightarrow> (st, [], Some (UnknownTimeZoneError (get_chat_timezone st (chat_id row))))
           | Some tz \<Rightarrow>
               (let formatted_msg = apply_templates (message row) (astimezone tz now)
                in (st, send_or_warn deliver (chat_id row) formatted_msg
                          ''Failed to send daily message'', None))))"

definition countdown_callback ::
  "unicode \<Rightarrow> pytz \<Rightarrow> (int \<Rightarrow> string \<Rightarrow> bool) \<Rightarrow> int \<Rightarrow> int \<Rightarrow> SchedulerBot \<Rightarrow> outcome" where
  "countdown_callback u tzdb deliver now schedule_id st =
     (case filter (\<lambda>r. rec_id r = schedule_id \<and> schedule_type r = ''countdown'') (schedules st) of
        [] \<Rightarrow> (st, [], None)
      | row # _ \<Rightarrow>
          (case tzdb (timezone row) of
             None \<Rightarrow> (st, [], Some (UnknownTimeZoneError (timezone row)))
           | Some tz \<Rightarrow>
               (let today = dt_date (astimezone tz now) in
                case (case end_date_str row of None \<Rightarrow> None | Some d \<Rightarrow> parse_date u d) of
                  None \<Rightarrow> (st, [], None)
                | Some end_date \<Rightarrow>
                    if today > end_date
                    then (let (st1, ev) = cancel_schedule schedule_id st;
                              text = ''Countdown for '' @ message row @ '' has ended.''
                          in (st1, ev @ [Send (chat_id row) text],
                              if deliver (chat_id row) text then None else Some TelegramError))
                    else (let days = end_date - today;
                              msg = str_int days @ '' day'' @ (if days \<noteq> 1 then ''s'' else [])
                                    @ '' remaining until '' @ message row @ ''!''
                          in (st, send_or_warn deliver (chat_id row) msg
                                    ''Failed to send countdown message'', None)))))"

definition repeating_callback ::
  "unicode \<Rightarrow> pytz \<Rightarrow> (int \<Rightarrow> string \<Rightarrow> bool) \<Rightarrow> int \<Rightarrow> int \<Rightarrow> SchedulerBot \<Rightarrow> outcome" where
  "repeating_callback u tzdb deliver now schedule_id st =
     (case filter (\<lambda>r. rec_id r = schedule_id \<and> schedule_type r = ''repeating'') (schedules st) of
        [] \<Rightarrow> (st, [], None)
      | row # _ \<Rightarrow>
          (case tzdb (timezone row) of
             None \<Rightarrow> (st, [], Some (UnknownTimeZoneError (timezone row)))
           | Some tz \<Rightarrow>
               (let today = dt_date (astimezone tz now) in
                case (case end_date_str row of None \<Rightarrow> None | Some d \<Rightarrow> parse_date u d) of
                  None \<Rightarrow> (st, [], None)
                | Some end_date \<Rightarrow>
                    if today > end_date
                    then (let (st1, ev) = cancel_schedule schedule_id st in (st1, ev, None))
                    else (let formatted_msg = apply_templates (message row) (astimezone tz now)
                          in (st, send_or_warn deliver (chat_id row) formatted_msg
                                    ''Failed to send repeating message'', None)))))"

text \<open>The callback that the job queue runs for a job.\<close>

definition run_job ::
  "unicode \<Rightarrow> pytz \<Rightarrow> (int \<Rightarrow> string \<Rightarrow> bool) \<Rightarrow> int \<Rightarrow> Job \<Rightarrow> SchedulerBot \<Rightarrow> outcome" where
  "run_job u tzdb deliver now job st =
     (case job_callback job of
        daily_cb \<Rightarrow> daily_callback tzdb deliver now (job_schedule_id job) st
      | countdown_cb \<Rightarrow> countdown_callback u tzdb deliver now (job_schedule_id job) st
      | repeating_cb \<Rightarrow> repeating_callback u tzdb deliver now (job_schedule_id job) st)"

definition empty_bot :: SchedulerBot where
  "empty_bot = \<lparr>schedules = [], schedules_seq = 0, chat_timezones = [], job_queue = [],
                active_jobs = []\<rparr>"

section \<open>\<open>scheduler.py\<close>: the polling scheduler\<close>

text \<open>\<open>s.split(sep)\<close> for a separator of one character.\<close>

fun split_on :: "char \<Rightarrow> string \<Rightarrow> string list" where
  "split_on c [] = [[]]"
| "split_on c (x # xs) =
     (if x = c then [] # split_on c xs
      else case split_on c xs of p # ps \<Rightarrow> (x # p) # ps | [] \<Rightarrow> [[x]])"

text \<open>
  \<open>_should_send_message\<close>: the zone lookup, the unpacking of the split and \<open>int\<close> may
  raise; the handler returns \<open>False\<close> for every exception.
\<close>

definition should_send_message :: "unicode \<Rightarrow> pytz \<Rightarrow> msg_config \<Rightarrow> int \<Rightarrow> bool" where
  "should_send_message u tzdb cfg current_time =
     (case tzdb (cfg_timezone cfg) of
        None \<Rightarrow> False
      | Some group_timezone \<Rightarrow>
          (let local_time = astimezone group_timezone current_time in
           case map (py_int u) (split_on CHR '':'' (sm_schedule_time (cfg_row cfg))) of
             [Some schedule_hour, Some schedule_minute] \<Rightarrow>
                dt_hour local_time = schedule_hour \<and> dt_minute local_time = schedule_minute
           | _ \<Rightarrow> False))"

definition format_daily_message :: "pytz \<Rightarrow> int \<Rightarrow> msg_config \<Rightarrow> string" where
  "format_daily_message tzdb now cfg =
     (let template = sm_message_template (cfg_row cfg) in
      case tzdb (cfg_timezone cfg) of
        None \<Rightarrow> template
      | Some group_timezone \<Rightarrow>
          (let local_time = astimezone group_timezone now;
               m1 = str_replace ''{date}''
                      (fmt_Y local_time @ ''-'' @ fmt_m local_time @ ''-'' @ fmt_d local_time) template;
               m2 = str_replace ''{time}'' (fmt_H local_time @ '':'' @ fmt_M local_time) m1;
               m3 = str_replace ''{day}'' (fmt_A local_time) m2;
               m4 = str_replace ''{month}'' (fmt_B local_time) m3
           in str_replace ''{year}'' (str_int (dt_year local_time)) m4))"

text \<open>The characters outside ASCII in the countdown messages, as UTF-8.\<close>

definition NL :: string where "NL = [CHR 0x0A]"
definition SPIRAL_CALENDAR :: string where
  "SPIRAL_CALENDAR = [CHR 0xF0, CHR 0x9F, CHR 0x97, CHR 0x93, CHR 0xEF, CHR 0xB8, CHR 0x8F]"
definition ALARM_CLOCK :: string where "ALARM_CLOCK = [CHR 0xE2, CHR 0x8F, CHR 0xB0]"
definition PARTY_POPPER :: string where "PARTY_POPPER = [CHR 0xF0, CHR 0x9F, CHR 0x8E, CHR 0x89]"
definition ROCKET :: string where "ROCKET = [CHR 0xF0, CHR 0x9F, CHR 0x9A, CHR 0x80]"
definition CONFETTI_BALL :: string where "CONFETTI_BALL = [CHR 0xF0, CHR 0x9F, CHR 0x8E, CHR 0x8A]"
definition CALENDAR :: string where "CALENDAR = [CHR 0xF0, CHR 0x9F, CHR 0x93, CHR 0x85]"
definition CHECK_MARK :: string where "CHECK_MARK = [CHR 0xE2, CHR 0x9C, CHR 0x85]"

text \<open>
  \<open>(target_date - current_time).days\<close>: \<open>target_date\<close> is midnight of the target day,
  \<open>current_time\<close> is the local date and time without its zone, and \<open>days\<close> of a
  \<open>timedelta\<close> is the floor of the difference in days.
\<close>

definition days_remaining :: "int \<Rightarrow> datetime \<Rightarrow> int" where
  "days_remaining target current_time =
     ((target - dt_date current_time) * 86400
        - (dt_hour current_time * 3600 + dt_minute current_time * 60 + dt_second current_time))
     div 86400"

definition midnight :: "int \<Rightarrow> datetime" where
  "midnight d = \<lparr>dt_date = d, dt_hour = 0, dt_minute = 0, dt_second = 0\<rparr>"

definition format_countdown_message :: "unicode \<Rightarrow> pytz \<Rightarrow> int \<Rightarrow> msg_config \<Rightarrow> string" where
  "format_countdown_message u tzdb now cfg =
     (let title = (case sm_title (cfg_row cfg) of None \<Rightarrow> ''None'' | Some t \<Rightarrow> t);
          fallback = ALARM_CLOCK @ '' Countdown: '' @ title in
      case (case sm_target_date (cfg_row cfg) of None \<Rightarrow> None | Some d \<Rightarrow> strptime_Ymd u d) of
        None \<Rightarrow> fallback
      | Some target \<Rightarrow>
          (case tzdb (cfg_timezone cfg) of
             None \<Rightarrow> fallback
           | Some group_timezone \<Rightarrow>
               (let current_time = astimezone group_timezone now;
                    target_date = midnight target;
                    days = days_remaining target current_time;
                    long_date = fmt_B target_date @ '' '' @ fmt_d target_date @ '', '' @ fmt_Y target_date
                in if days > 0
                   then SPIRAL_CALENDAR @ '' <b>'' @ title @ ''</b>'' @ NL @ NL @ ALARM_CLOCK @ '' <b>''
                        @ str_int days @ '' days remaining!</b>'' @ NL @ NL @ ''Target Date: '' @ long_date
                   else if days = 0
                   then PARTY_POPPER @ '' <b>'' @ title @ ''</b>'' @ NL @ NL @ ROCKET
                        @ '' <b>TODAY IS THE DAY!</b>'' @ NL @ NL @ ''The wait is over! '' @ CONFETTI_BALL
                   else CALENDAR @ '' <b>'' @ title @ ''</b>'' @ NL @ NL @ CHECK_MARK
                        @ '' Event completed '' @ str_int (abs days) @ '' days ago'' @ NL @ NL
                        @ ''Date: '' @ long_date)))"

text \<open>
  \<open>_send_scheduled_message\<close>: an empty message is not sent; a failure of
  \<open>send_message\<close> is caught and logged.
\<close>

definition send_scheduled_message ::
  "unicode \<Rightarrow> pytz \<Rightarrow> (int \<Rightarrow> string \<Rightarrow> bool) \<Rightarrow> int \<Rightarrow> msg_config \<Rightarrow> event list" where
  "send_scheduled_message u tzdb deliver now cfg =
     (let cid = sm_chat_id (cfg_row cfg);
          message_type = sm_message_type (cfg_row cfg);
          msg = (if message_type = ''daily'' then format_daily_message tzdb now cfg
                 else if message_type = ''countdown'' then format_countdown_message u tzdb now cfg
                 else sm_message_template (cfg_row cfg))
      in if msg \<noteq> []
         then (if deliver cid msg
               then [Send cid msg, Log (''Sent scheduled message to group '' @ str_int cid)]
               else [Send cid msg, Log ''Error sending scheduled message''])
         else [])"

text \<open>
  One run of \<open>_check_and_send_messages\<close> at the instant \<open>current_time\<close>. For a record
  that is due, \<open>asyncio.create_task\<close> is called with the coroutine that sends it:
  \<open>CreateTask cfg (Some evs)\<close> is a task created for the record, with the events of its
  run. \<open>asyncio.create_task\<close> raises \<open>RuntimeError\<close> in a thread that has no running
  event loop; the parameter \<open>running_loop\<close> says whether the calling thread has one.
  The \<open>try\<close> of the method encloses the whole loop, so the exception ends the run:
  \<open>CreateTask cfg None\<close> and the log record follow, and no later record is looked at.
\<close>

datatype tick_event = CreateTask msg_config "event list option" | TickLog string

fun check_loop ::
  "unicode \<Rightarrow> bool \<Rightarrow> pytz \<Rightarrow> (int \<Rightarrow> string \<Rightarrow> bool) \<Rightarrow> int \<Rightarrow> msg_config list
     \<Rightarrow> tick_event list" where
  "check_loop u running_loop tzdb deliver current_time [] = []"
| "check_loop u running_loop tzdb deliver current_time (cfg # cfgs) =
     (if should_send_message u tzdb cfg current_time
      then (if running_loop
            then CreateTask cfg (Some (send_scheduled_message u tzdb deliver current_time cfg))
                 # check_loop u running_loop tzdb deliver current_time cfgs
            else [CreateTask cfg None,
                  TickLog ''Error in scheduler check: no running event loop''])
      else check_loop u running_loop tzdb deliver current_time cfgs)"

definition check_and_send_messages ::
  "unicode \<Rightarrow> bool \<Rightarrow> pytz \<Rightarrow> (int \<Rightarrow> string \<Rightarrow> bool) \<Rightarrow> BotDatabase \<Rightarrow> int
     \<Rightarrow> tick_event list" where
  "check_and_send_messages u running_loop tzdb deliver db current_time =
     check_loop u running_loop tzdb deliver current_time (get_scheduled_messages db None)"

text \<open>
  \<open>_run_scheduler\<close>: the \<open>schedule\<close> library runs \<open>_check_and_send_messages\<close> at the
  instants of its ticks, and the database may change between two ticks. An execution
  of the loop is the list of its ticks, each with the instant and the database that
  the tick reads; its result is the list of the instants with what each tick did.
\<close>

fun run_scheduler ::
  "unicode \<Rightarrow> bool \<Rightarrow> pytz \<Rightarrow> (int \<Rightarrow> string \<Rightarrow> bool) \<Rightarrow> (int \<times> BotDatabase) list
     \<Rightarrow> (int \<times> tick_event list) list" where
  "run_scheduler u running_loop tzdb deliver [] = []"
| "run_scheduler u running_loop tzdb deliver ((t, db) # ticks) =
     (t, check_and_send_messages u running_loop tzdb deliver db t)
     # run_scheduler u running_loop tzdb deliver ticks"

text \<open>The validation and insertion of \<open>add_daily_message\<close> and \<open>add_countdown_message\<close>.\<close>

definition add_daily_message ::
  "unicode \<Rightarrow> BotDatabase \<Rightarrow> int \<Rightarrow> string \<Rightarrow> string \<Rightarrow> BotDatabase \<times> bool" where
  "add_daily_message u db cid tstr msg =
     (case strptime_HM u tstr of
        None \<Rightarrow> (db, False)
      | Some _ \<Rightarrow> add_scheduled_message db cid ''daily'' tstr msg None None)"


definition remove_schedule :: "BotDatabase \<Rightarrow> int \<Rightarrow> int \<Rightarrow> BotDatabase \<times> bool" where
  "remove_schedule db message_id cid = remove_scheduled_message db message_id cid"

section \<open>Example data\<close>

text \<open>
  A character table for the examples. Of the characters outside ASCII it knows the ten
  Arabic-Indic digits U+0660 to U+0669, in UTF-8 the byte 0xD9 followed by a byte from
  0xA0 to 0xA9. \<open>int\<close> puts a question mark in the place of the first character that is
  neither ASCII, a blank nor a decimal digit, and stops there.
\<close>

fun arabic_indic_to_ascii :: "string \<Rightarrow> string" where
  "arabic_indic_to_ascii [] = []"
| "arabic_indic_to_ascii [a] = (if is_ascii a then [a] else ''?'')"
| "arabic_indic_to_ascii (a # b # r) =
     (if is_ascii a then a # arabic_indic_to_ascii (b # r)
      else if a = CHR 0xD9 \<and> in_range (CHR 0xA0) (CHR 0xA9) b
      then digit_char (of_char b - 0xA0) # arabic_indic_to_ascii r
      else ''?'')"

definition arabic_indic_at :: "string \<Rightarrow> (string \<times> string) list" where
  "arabic_indic_at s = (case s of
       a # b # r \<Rightarrow> if a = CHR 0xD9 \<and> in_range (CHR 0xA0) (CHR 0xA9) b then [([a, b], r)] else []
     | _ \<Rightarrow> [])"

definition example_unicode :: unicode where
  "example_unicode = \<lparr>to_ascii = arabic_indic_to_ascii, decimal_at = arabic_indic_at\<rparr>"

text \<open>
  A zone table for the examples: UTC, Tokyo (nine hours ahead all year) and New York
  around the end of daylight saving time on 2024-11-03 at 06:00 UTC.
\<close>

definition example_zones :: pytz where
  "example_zones name =
     (if name = ''UTC'' then Some (\<lambda>t. 0)
      else if name = ''Asia/Tokyo'' then Some (\<lambda>t. 32400)
      else if name = ''America/New_York''
           then Some (\<lambda>t. if t < 1730613600 then - 14400 else - 18000)
      else None)"

definition example_countdown :: msg_config where
  "example_countdown =
     \<lparr>cfg_row = \<lparr>sm_id = 1, sm_chat_id = - 123456, sm_message_type = ''countdown'',
                 sm_schedule_time = ''10:00'', sm_message_template = [],
                 sm_target_date = Some ''2024-12-31'', sm_title = Some ''New Year'',
                 sm_is_active = True\<rparr>,
      cfg_timezone = ''UTC'', cfg_group_name = ''Test Group''\<rparr>"




text \<open>A database with one group in New York and one daily message at 01:30.\<close>

definition new_york_db :: BotDatabase where
  "new_york_db =
     fst (add_scheduled_message (fst (add_group empty_database (- 5) ''NYC'' ''America/New_York''))
            (- 5) ''daily'' ''01:30'' ''Good night'' None None)"

section \<open>Observations\<close>

text \<open>The messages that a run hands to \<open>send_message\<close>, in order.\<close>

definition sent_messages :: "event list \<Rightarrow> (int \<times> string) list" where
  "sent_messages ev = concat (map (\<lambda>e. case e of Send c t \<Rightarrow> [(c, t)] | _ \<Rightarrow> []) ev)"


text \<open>
  The state without the schedule \<open>k\<close>: its row, its jobs in the job queue and its entry
  in \<open>active_jobs\<close> are taken out, and nothing else changes.
\<close>

definition without :: "int \<Rightarrow> SchedulerBot \<Rightarrow> SchedulerBot" where
  "without k st =
     st\<lparr>schedules := filter (\<lambda>r. rec_id r \<noteq> k) (schedules st),
        job_queue := filter (\<lambda>j. job_schedule_id j \<noteq> k) (job_queue st),
        active_jobs := filter (\<lambda>(i, j). i \<noteq> k) (active_jobs st)\<rparr>"

text \<open>
  The job queue and \<open>active_jobs\<close> hold the same jobs: no two jobs in the queue run for
  the same schedule, every job in the queue is the entry of its schedule in
  \<open>active_jobs\<close>, and every entry of \<open>active_jobs\<close> is a job in the queue for that
  schedule.
\<close>

definition jobs_wf :: "SchedulerBot \<Rightarrow> bool" where
  "jobs_wf st =
     (distinct (map job_schedule_id (job_queue st))
      \<and> list_all (\<lambda>j. map_of (active_jobs st) (job_schedule_id j) = Some j) (job_queue st)
      \<and> list_all (\<lambda>(k, j). j \<in> set (job_queue st) \<and> job_schedule_id j = k) (active_jobs st))"



definition example_bot :: SchedulerBot where
  "example_bot =
     fst (setrepeating example_unicode example_zones 100
            [''09:00'', ''2024-01-03'', ''Standup'', ''on'', ''{day}'']
       (fst (setcountdown example_unicode example_zones 100
               [''10:00'', ''2024-12-31'', ''New'', ''Year''] empty_bot)))"

text \<open>The example bot after \<open>/setschedule 08:30 Good morning\<close> in chat 100.\<close>

definition example_created :: SchedulerBot where
  "example_created =
     fst (setschedule example_unicode example_zones 100 [''08:30'', ''Good'', ''morning''] example_bot)"

text \<open>
  The local date, hour and minute that a zone shows at an instant, and the log of an
  execution of the polling scheduler: for every call of \<open>create_task\<close>, the id of the
  record with the local date, hour and minute of the tick in the zone in which the
  record was evaluated.
\<close>

definition local_minute :: "tzinfo \<Rightarrow> int \<Rightarrow> int \<times> int \<times> int" where
  "local_minute tz t = (let lt = astimezone tz t in (dt_date lt, dt_hour lt, dt_minute lt))"

fun fire_keys :: "pytz \<Rightarrow> int \<Rightarrow> tick_event list \<Rightarrow> (int \<times> int \<times> int \<times> int) list" where
  "fire_keys tzdb t [] = []"
| "fire_keys tzdb t (CreateTask cfg r # es) =
     (case tzdb (cfg_timezone cfg) of
        Some tz \<Rightarrow> [(sm_id (cfg_row cfg), local_minute tz t)]
      | None \<Rightarrow> []) @ fire_keys tzdb t es"
| "fire_keys tzdb t (TickLog l # es) = fire_keys tzdb t es"

fun fire_log :: "pytz \<Rightarrow> (int \<times> tick_event list) list \<Rightarrow> (int \<times> int \<times> int \<times> int) list" where
  "fire_log tzdb [] = []"
| "fire_log tzdb ((t, es) # run) = fire_keys tzdb t es @ fire_log tzdb run"

text \<open>Ticks that are at least 60 seconds apart, as \<open>schedule.every().minute\<close> spaces them.\<close>

fun spaced :: "int list \<Rightarrow> bool" where
  "spaced [] = True"
| "spaced [t] = True"
| "spaced (t # u # ts) = (t + 60 \<le> u \<and> spaced (u # ts))"

text \<open>
  The job that \<open>_schedule_job\<close> registers for a row, if it registers one, and the log
  record that it writes then.
\<close>

definition job_of :: "unicode \<Rightarrow> pytz \<Rightarrow> ScheduleRecord \<Rightarrow> Job option" where
  "job_of u tzdb row = map_of (active_jobs (fst (schedule_job u tzdb row empty_bot))) (rec_id row)"

definition scheduled_log :: "ScheduleRecord \<Rightarrow> event" where
  "scheduled_log r = Log (''Scheduled job '' @ str_int (rec_id r) @ '' of type ''
                           @ schedule_type r @ '' for chat '' @ str_int (chat_id r))"

text \<open>
  A state in which every stored schedule is active: the ids are distinct and not above
  the AUTOINCREMENT counter, the job queue holds, in the order of the rows, the job
  that \<open>_schedule_job\<close> registers for each row, and \<open>active_jobs\<close> holds each of these
  jobs under its schedule id.
\<close>

definition consistent :: "unicode \<Rightarrow> pytz \<Rightarrow> SchedulerBot \<Rightarrow> bool" where
  "consistent u tzdb st =
     (distinct (map rec_id (schedules st))
      \<and> list_all (\<lambda>r. rec_id r \<le> schedules_seq st) (schedules st)
      \<and> map Some (job_queue st) = map (job_of u tzdb) (schedules st)
      \<and> active_jobs st = map (\<lambda>j. (job_schedule_id j, j)) (job_queue st))"

section \<open>Properties\<close>

subsection \<open>Days remaining of a countdown\<close>

text \<open>
  C2. The claim: the days remaining of a countdown are the end date minus the local
  date, 0 on the end date itself, and on that day the message is the "today" message.
  \<open>_format_countdown_message\<close> subtracts the local date and time from midnight of the
  target day and takes the floor. On the target day 2024-12-31 at 10:00 UTC
  (instant 1735639200) the difference is minus ten hours, the days remaining are -1, and
  the message is the one for an event that has passed. The "today" message is rendered
  at 10:00 on the day before (instant 1735552800).
\<close>

theorem countdown_on_target_day_reports_completed:
  "strptime_Ymd u ''2024-12-31'' = Some (dt_date (astimezone (\<lambda>t. 0) 1735639200))
   \<and> days_remaining (dt_date (astimezone (\<lambda>t. 0) 1735639200)) (astimezone (\<lambda>t. 0) 1735639200) = - 1
   \<and> format_countdown_message u example_zones 1735639200 example_countdown =
       CALENDAR @ '' <b>New Year</b>'' @ NL @ NL @ CHECK_MARK @ '' Event completed 1 days ago''
       @ NL @ NL @ ''Date: December 31, 2024''
   \<and> format_countdown_message u example_zones 1735552800 example_countdown =
       PARTY_POPPER @ '' <b>New Year</b>'' @ NL @ NL @ ROCKET @ '' <b>TODAY IS THE DAY!</b>''
       @ NL @ NL @ ''The wait is over! '' @ CONFETTI_BALL"
  by code_simp

subsection \<open>The zone of a daily schedule\<close>

text \<open>
  C4. The claim: a schedule is evaluated and rendered in the zone that was resolved when
  it was created, and a later change of the chat's zone changes nothing. A daily
  schedule is created at 09:00 while the chat's zone is UTC; the record and its job keep
  UTC. After \<open>/settimezone Asia/Tokyo\<close> the job still runs at 09:00 UTC, and
  \<open>_daily_callback\<close>, which reads the chat's current zone, renders \<open>{time}\<close> as 18:00
  where it rendered 09:00 before the change.
\<close>

theorem daily_rendering_follows_later_timezone_change:
  "let st0 = fst (setschedule u example_zones 100 [''09:00'', ''It'', ''is'', ''{time}''] empty_bot);
       st1 = fst (settimezone [''UTC'', ''Asia/Tokyo''] 100 [''Asia/Tokyo''] st0)
   in map timezone (schedules st1) = [''UTC'']
    \<and> map (job_tzinfo \<circ> snd) (active_jobs st1) = [''UTC'']
    \<and> fst (snd (daily_callback example_zones (\<lambda>c t. True) 1704099600 1 st0))
        = [Send 100 ''It is 09:00'']
    \<and> fst (snd (daily_callback example_zones (\<lambda>c t. True) 1704099600 1 st1))
        = [Send 100 ''It is 18:00'']"
  by code_simp

subsection \<open>Removing twice\<close>

text \<open>
  C5. The claim: removing an id twice is safe, and the second call reports not-found.
  \<open>remove_scheduled_message\<close> marks the row inactive and reports whether its
  \<open>UPDATE\<close> selected a row. The row stays in the table, so the second call selects it
  again: after the first removal the schedule is no longer listed, the second removal
  leaves the database as it is and returns \<open>True\<close>, which the command layer reports as
  removed.
\<close>

theorem second_remove_reports_removed:
  "let db0 = fst (add_scheduled_message
                   (fst (add_group empty_database (- 123456) ''Test Group'' ''UTC''))
                   (- 123456) ''daily'' ''09:00'' ''Good morning'' None None);
       (db1, first) = remove_schedule db0 1 (- 123456);
       (db2, second) = remove_schedule db1 1 (- 123456)
   in first \<and> get_scheduled_messages db1 None = [] \<and> second \<and> db2 = db1"
  by (simp add: add_scheduled_message_def add_group_def empty_database_def remove_schedule_def
           remove_scheduled_message_def get_scheduled_messages_def Let_def)

subsection \<open>Removing from another chat\<close>

text \<open>
  C10. The claim: a remove command from one chat never deletes a schedule of another
  chat. \<open>removeschedule\<close> deletes by id alone: chat 100 creates schedule 1, and
  \<open>/removeschedule 1\<close> issued in chat 200 deletes the row, cancels the job and
  replies that the schedule was removed.
\<close>

theorem removeschedule_deletes_other_chats_schedule:
  "let st0 = fst (setschedule u example_zones 100 [''09:00'', ''Good'', ''morning''] empty_bot);
       (st1, ev, x) = removeschedule u 200 [''1''] st0
   in map chat_id (schedules st0) = [100] \<and> map fst (active_jobs st0) = [1]
      \<and> schedules st1 = [] \<and> active_jobs st1 = [] \<and> job_queue st1 = []
      \<and> ev = [Reply ''Removed schedule 1.'']"
  by code_simp

subsection \<open>Expiry\<close>


lemma remove1_by_key:
  "distinct (map f xs) \<Longrightarrow> x \<in> set xs \<Longrightarrow> remove1 x xs = filter (\<lambda>y. f y \<noteq> f x) xs"
proof (induction xs)
  case Nil
  then show ?case by simp
next
  case (Cons a xs)
  show ?case
  proof (cases "a = x")
    case True
    with Cons.prems have "\<forall>y\<in>set xs. f y \<noteq> f x" by (auto simp: image_iff)
    then have "filter (\<lambda>y. f y \<noteq> f x) xs = xs" by (simp add: filter_id_conv)
    with True show ?thesis by simp
  next
    case False
    with Cons.prems have "x \<in> set xs" by simp
    moreover with Cons.prems have "f a \<noteq> f x" by (auto simp: image_iff)
    ultimately show ?thesis using Cons.IH Cons.prems False by simp
  qed
qed

lemma delete_is_filter: "AList.delete k al = filter (\<lambda>(i, j). i \<noteq> k) al"
  by (induction al) (auto simp: AList.delete_eq)

lemma pop_job_without:
  assumes "jobs_wf st"
  shows "pop_job k st = st\<lparr>job_queue := filter (\<lambda>j. job_schedule_id j \<noteq> k) (job_queue st),
                            active_jobs := filter (\<lambda>(i, j). i \<noteq> k) (active_jobs st)\<rparr>"
proof (cases "map_of (active_jobs st) k")
  case None
  from assms have "\<forall>j\<in>set (job_queue st). map_of (active_jobs st) (job_schedule_id j) = Some j"
    by (simp add: jobs_wf_def list_all_iff)
  with None have "\<forall>j\<in>set (job_queue st). job_schedule_id j \<noteq> k" by auto
  then have q: "filter (\<lambda>j. job_schedule_id j \<noteq> k) (job_queue st) = job_queue st"
    by (simp add: filter_id_conv)
  from None have "\<forall>p\<in>set (active_jobs st). fst p \<noteq> k"
    by (auto simp: map_of_eq_None_iff image_iff)
  then have a: "filter (\<lambda>(i, j). i \<noteq> k) (active_jobs st) = active_jobs st"
    by (auto simp: filter_id_conv)
  from None q a show ?thesis by (simp add: pop_job_def)
next
  case (Some job)
  then have "(k, job) \<in> set (active_jobs st)" by (rule map_of_SomeD)
  with assms have j: "job \<in> set (job_queue st)" "job_schedule_id job = k"
    by (auto simp: jobs_wf_def list_all_iff)
  from assms have "distinct (map job_schedule_id (job_queue st))" by (simp add: jobs_wf_def)
  from remove1_by_key [OF this j(1)] j(2)
  have "remove1 job (job_queue st) = filter (\<lambda>j. job_schedule_id j \<noteq> k) (job_queue st)" by simp
  with Some show ?thesis by (simp add: pop_job_def delete_is_filter)
qed

lemma jobs_wf_schedules [simp]: "jobs_wf (st\<lparr>schedules := rows\<rparr>) = jobs_wf st"
  by (simp add: jobs_wf_def)

lemma cancel_schedule_without:
  "jobs_wf st \<Longrightarrow> cancel_schedule k st =
     (without k st, [Log (''Schedule '' @ str_int k @ '' completed and removed.'')])"
  by (simp add: cancel_schedule_def pop_job_without without_def)






subsection \<open>Restart\<close>

lemma schedule_job_job_of:
  "job_of u tzdb row = Some j \<Longrightarrow>
   schedule_job u tzdb row st =
     (st\<lparr>job_queue := job_queue st @ [j],
         active_jobs := AList.update (rec_id row) j (active_jobs st)\<rparr>,
      [scheduled_log row], None)"
  by (auto simp: job_of_def schedule_job_def empty_bot_def Let_def scheduled_log_def
           split: option.splits if_splits)

lemma job_of_id: "job_of u tzdb row = Some j \<Longrightarrow> job_schedule_id j = rec_id row"
  by (auto simp: job_of_def schedule_job_def empty_bot_def Let_def
           split: option.splits if_splits)

lemma job_of_created:
  assumes "parse_hhmm u (time_str row) = Some t"
    and "schedule_type row = ''daily'' \<or> schedule_type row = ''countdown''
         \<or> schedule_type row = ''repeating''"
    and "snd (snd (schedule_job u tzdb row st)) = None"
  shows "\<exists>j. job_of u tzdb row = Some j"
  using assms
  by (auto simp: job_of_def schedule_job_def empty_bot_def Let_def
           split: option.splits if_splits)

lemma update_fresh: "k \<notin> fst ` set al \<Longrightarrow> AList.update k v al = al @ [(k, v)]"
  by (induction al) auto

lemma restore_rows_jobs:
  assumes "map Some js = map (job_of u tzdb) rows" and "distinct (map rec_id rows)"
    and "\<forall>r\<in>set rows. rec_id r \<notin> fst ` set (active_jobs st)"
  shows "restore_rows u tzdb rows st =
           (st\<lparr>job_queue := job_queue st @ js,
               active_jobs := active_jobs st @ map (\<lambda>j. (job_schedule_id j, j)) js\<rparr>,
            map scheduled_log rows, None)"
  using assms
proof (induction rows arbitrary: js st)
  case Nil
  then show ?case by simp
next
  case (Cons r rows)
  from Cons.prems(1) obtain j js' where js: "js = j # js'" and j: "job_of u tzdb r = Some j"
    and rest: "map Some js' = map (job_of u tzdb) rows"
    by (cases js) auto
  let ?st1 = "st\<lparr>job_queue := job_queue st @ [j],
                  active_jobs := active_jobs st @ [(rec_id r, j)]\<rparr>"
  from Cons.prems(3) have fresh: "rec_id r \<notin> fst ` set (active_jobs st)" by simp
  have step: "schedule_job u tzdb r st = (?st1, [scheduled_log r], None)"
    using schedule_job_job_of [OF j, of st] update_fresh [OF fresh] by simp
  from Cons.prems(2,3) have fresh1: "\<forall>r'\<in>set rows. rec_id r' \<notin> fst ` set (active_jobs ?st1)"
    by (auto simp: image_iff)
  from Cons.prems(2) have d: "distinct (map rec_id rows)" by simp
  from Cons.IH [OF rest d fresh1] step job_of_id [OF j] show ?case
    by (simp add: js)
qed

lemma restore_schedules_disk:
  assumes "consistent u tzdb st"
  shows "restore_schedules u tzdb (disk st) = (st, map scheduled_log (schedules st), None)"
proof -
  from assms have a: "map Some (job_queue st) = map (job_of u tzdb) (schedules st)"
    and b: "distinct (map rec_id (schedules st))"
    and c: "active_jobs st = map (\<lambda>j. (job_schedule_id j, j)) (job_queue st)"
    by (simp_all add: consistent_def)
  have "restore_rows u tzdb (schedules st) (disk st) =
          ((disk st)\<lparr>job_queue := job_queue (disk st) @ job_queue st,
               active_jobs := active_jobs (disk st) @ map (\<lambda>j. (job_schedule_id j, j)) (job_queue st)\<rparr>,
            map scheduled_log (schedules st), None)"
    by (rule restore_rows_jobs [OF a b]) (simp add: disk_def)
  then show ?thesis by (simp add: restore_schedules_def disk_def c [symmetric])
qed


lemma job_ids:
  "map Some jq = map (job_of u tzdb) rows \<Longrightarrow> map job_schedule_id jq = map rec_id rows"
proof (induction rows arbitrary: jq)
  case Nil
  then show ?case by simp
next
  case (Cons r rows)
  then obtain j jq' where "jq = j # jq'" "job_of u tzdb r = Some j"
    "map Some jq' = map (job_of u tzdb) rows" by (cases jq) auto
  with Cons.IH [of jq'] job_of_id [of u tzdb r j] show ?case by simp
qed

lemma consistent_jobs_wf:
  assumes "consistent u tzdb st"
  shows "jobs_wf st"
proof -
  from assms have a: "map Some (job_queue st) = map (job_of u tzdb) (schedules st)"
    and b: "distinct (map rec_id (schedules st))"
    and c: "active_jobs st = map (\<lambda>j. (job_schedule_id j, j)) (job_queue st)"
    by (simp_all add: consistent_def)
  from job_ids [OF a] b have d: "distinct (map job_schedule_id (job_queue st))" by simp
  have e: "map_of (active_jobs st) (job_schedule_id j) = Some j" if "j \<in> set (job_queue st)" for j
  proof (rule map_of_is_SomeI)
    show "distinct (map fst (active_jobs st))" using d by (simp add: c comp_def)
    show "(job_schedule_id j, j) \<in> set (active_jobs st)" using that by (auto simp: c)
  qed
  from d e show ?thesis by (auto simp: jobs_wf_def list_all_iff c)
qed

lemma filter_jobs:
  "map Some jq = map (job_of u tzdb) rows \<Longrightarrow>
   map Some (filter (\<lambda>j. job_schedule_id j \<noteq> k) jq)
     = map (job_of u tzdb) (filter (\<lambda>r. rec_id r \<noteq> k) rows)"
proof (induction rows arbitrary: jq)
  case Nil
  then show ?case by simp
next
  case (Cons r rows)
  then obtain j jq' where "jq = j # jq'" "job_of u tzdb r = Some j"
    "map Some jq' = map (job_of u tzdb) rows" by (cases jq) auto
  with Cons.IH [of jq'] job_of_id [of u tzdb r j] show ?case by simp
qed

lemma consistent_without:
  assumes "consistent u tzdb st"
  shows "consistent u tzdb (without k st)"
proof -
  from assms have a: "map Some (job_queue st) = map (job_of u tzdb) (schedules st)"
    and b: "distinct (map rec_id (schedules st))"
    and c: "active_jobs st = map (\<lambda>j. (job_schedule_id j, j)) (job_queue st)"
    and d: "list_all (\<lambda>r. rec_id r \<le> schedules_seq st) (schedules st)"
    by (simp_all add: consistent_def)
  have "filter (\<lambda>(i, j). i \<noteq> k) (map (\<lambda>j. (job_schedule_id j, j)) (job_queue st))
          = map (\<lambda>j. (job_schedule_id j, j)) (filter (\<lambda>j. job_schedule_id j \<noteq> k) (job_queue st))"
    by (simp add: filter_map comp_def)
  with filter_jobs [OF a, of k] b c d show ?thesis
    by (simp add: consistent_def without_def distinct_map_filter list_all_iff)
qed

lemma consistent_append:
  assumes "consistent u tzdb st" and "job_of u tzdb row = Some j"
    and "rec_id row = schedules_seq st + 1"
  shows "consistent u tzdb
           (st\<lparr>schedules := schedules st @ [row], schedules_seq := schedules_seq st + 1,
               job_queue := job_queue st @ [j],
               active_jobs := AList.update (rec_id row) j (active_jobs st)\<rparr>)"
proof -
  from assms(1) have a: "map Some (job_queue st) = map (job_of u tzdb) (schedules st)"
    and b: "distinct (map rec_id (schedules st))"
    and c: "active_jobs st = map (\<lambda>j. (job_schedule_id j, j)) (job_queue st)"
    and d: "\<forall>r\<in>set (schedules st). rec_id r \<le> schedules_seq st"
    by (simp_all add: consistent_def list_all_iff)
  from d assms(3) have new: "rec_id row \<notin> rec_id ` set (schedules st)" by force
  have "fst ` set (active_jobs st) = set (map job_schedule_id (job_queue st))"
    by (simp add: c image_image)
  with job_ids [OF a] new have "rec_id row \<notin> fst ` set (active_jobs st)" by simp
  from update_fresh [OF this] have upd:
    "AList.update (rec_id row) j (active_jobs st) = active_jobs st @ [(rec_id row, j)]" .
  show ?thesis
    unfolding upd
    using a b c d new assms(2,3) job_of_id [OF assms(2)]
    by (auto simp: consistent_def list_all_iff)
qed

lemma then_reply_None:
  "then_reply r text = (st', ev, None) \<Longrightarrow> fst r = st' \<and> snd (snd r) = None"
  by (auto simp: then_reply_def split: prod.splits option.splits)

lemma consistent_create:
  assumes "consistent u tzdb st" and "parse_hhmm u (time_str row) = Some t"
    and "schedule_type row = ''daily'' \<or> schedule_type row = ''countdown''
         \<or> schedule_type row = ''repeating''"
    and "rec_id row = schedules_seq st + 1"
    and "then_reply (schedule_job u tzdb row
                       (st\<lparr>schedules := schedules st @ [row],
                           schedules_seq := schedules_seq st + 1\<rparr>)) text
           = (st', ev, None)"
  shows "consistent u tzdb st' \<and> schedules st' = schedules st @ [row]"
proof -
  let ?st1 = "st\<lparr>schedules := schedules st @ [row], schedules_seq := schedules_seq st + 1\<rparr>"
  from then_reply_None [OF assms(5)] have r: "fst (schedule_job u tzdb row ?st1) = st'"
    and x: "snd (snd (schedule_job u tzdb row ?st1)) = None" by simp_all
  from job_of_created [OF assms(2,3) x] obtain j where j: "job_of u tzdb row = Some j" ..
  from r schedule_job_job_of [OF j, of ?st1]
  have st': "st' = st\<lparr>schedules := schedules st @ [row], schedules_seq := schedules_seq st + 1,
                       job_queue := job_queue st @ [j],
                       active_jobs := AList.update (rec_id row) j (active_jobs st)\<rparr>"
    by simp
  from consistent_append [OF assms(1) j assms(4)] st' show ?thesis by simp
qed

lemma insert_schedule_eq:
  "insert_schedule st cid stype tstr edate msg tzname =
     (st\<lparr>schedules := schedules st
            @ [\<lparr>rec_id = schedules_seq st + 1, chat_id = cid, schedule_type = stype,
                time_str = tstr, end_date_str = edate, message = msg, timezone = tzname\<rparr>],
         schedules_seq := schedules_seq st + 1\<rparr>, schedules_seq st + 1)"
  by (simp add: insert_schedule_def Let_def)

lemma setschedule_consistent:
  assumes "consistent u tzdb st" and "setschedule u tzdb cid args st = (st', ev, None)"
  shows "consistent u tzdb st'
         \<and> (st' = st \<or>
            schedules st' = schedules st
              @ [\<lparr>rec_id = schedules_seq st + 1, chat_id = cid, schedule_type = ''daily'',
                  time_str = hd args, end_date_str = None, message = join '' '' (tl args),
                  timezone = get_chat_timezone st cid\<rparr>])"
proof (cases "length args < 2 \<or> parse_hhmm u (hd args) = None")
  case True
  with assms(2) have "st' = st" by (auto simp: setschedule_def Let_def split: if_splits)
  with assms(1) show ?thesis by simp
next
  case False
  then obtain t where t: "parse_hhmm u (hd args) = Some t" and len: "\<not> length args < 2" by auto
  let ?row = "\<lparr>rec_id = schedules_seq st + 1, chat_id = cid, schedule_type = ''daily'',
                time_str = hd args, end_date_str = None, message = join '' '' (tl args),
                timezone = get_chat_timezone st cid\<rparr>"
  from assms(2) have run: "then_reply (schedule_job u tzdb ?row
                       (st\<lparr>schedules := schedules st @ [?row],
                           schedules_seq := schedules_seq st + 1\<rparr>))
             (''Scheduled daily message (ID '' @ str_int (schedules_seq st + 1) @ '') at ''
                @ hd args @ ''.'') = (st', ev, None)"
    by (simp add: setschedule_def Let_def insert_schedule_eq t len)
  have "consistent u tzdb st' \<and> schedules st' = schedules st @ [?row]"
    by (rule consistent_create [OF assms(1) _ _ _ run]) (simp_all add: t)
  then show ?thesis by simp
qed

lemma setcountdown_consistent:
  assumes "consistent u tzdb st" and "setcountdown u tzdb cid args st = (st', ev, None)"
  shows "consistent u tzdb st'
         \<and> (st' = st \<or>
            schedules st' = schedules st
              @ [\<lparr>rec_id = schedules_seq st + 1, chat_id = cid, schedule_type = ''countdown'',
                  time_str = args ! 0, end_date_str = Some (args ! 1),
                  message = join '' '' (drop 2 args), timezone = get_chat_timezone st cid\<rparr>])"
proof (cases "length args < 3 \<or> parse_hhmm u (args ! 0) = None \<or> parse_date u (args ! 1) = None")
  case True
  with assms(2) have "st' = st" by (auto simp: setcountdown_def Let_def split: if_splits)
  with assms(1) show ?thesis by simp
next
  case False
  then obtain t dd where t: "parse_hhmm u (args ! 0) = Some t" and len: "\<not> length args < 3"
    and d: "parse_date u (args ! 1) = Some dd" by auto
  let ?row = "\<lparr>rec_id = schedules_seq st + 1, chat_id = cid, schedule_type = ''countdown'',
                time_str = args ! 0, end_date_str = Some (args ! 1),
                message = join '' '' (drop 2 args), timezone = get_chat_timezone st cid\<rparr>"
  from assms(2) have run: "then_reply (schedule_job u tzdb ?row
                       (st\<lparr>schedules := schedules st @ [?row],
                           schedules_seq := schedules_seq st + 1\<rparr>))
             (''Scheduled daily countdown (ID '' @ str_int (schedules_seq st + 1) @ '') for ''
                @ join '' '' (drop 2 args) @ '' on '' @ args ! 1 @ '' at '' @ args ! 0 @ ''.'')
           = (st', ev, None)"
    using d by (simp add: setcountdown_def Let_def insert_schedule_eq t len)
  have "consistent u tzdb st' \<and> schedules st' = schedules st @ [?row]"
    by (rule consistent_create [OF assms(1) _ _ _ run]) (simp_all add: t)
  then show ?thesis by simp
qed

lemma setrepeating_consistent:
  assumes "consistent u tzdb st" and "setrepeating u tzdb cid args st = (st', ev, None)"
  shows "consistent u tzdb st'
         \<and> (st' = st \<or>
            schedules st' = schedules st
              @ [\<lparr>rec_id = schedules_seq st + 1, chat_id = cid, schedule_type = ''repeating'',
                  time_str = args ! 0, end_date_str = Some (args ! 1),
                  message = join '' '' (drop 2 args), timezone = get_chat_timezone st cid\<rparr>])"
proof (cases "length args < 3 \<or> parse_hhmm u (args ! 0) = None \<or> parse_date u (args ! 1) = None")
  case True
  with assms(2) have "st' = st" by (auto simp: setrepeating_def Let_def split: if_splits)
  with assms(1) show ?thesis by simp
next
  case False
  then obtain t dd where t: "parse_hhmm u (args ! 0) = Some t" and len: "\<not> length args < 3"
    and d: "parse_date u (args ! 1) = Some dd" by auto
  let ?row = "\<lparr>rec_id = schedules_seq st + 1, chat_id = cid, schedule_type = ''repeating'',
                time_str = args ! 0, end_date_str = Some (args ! 1),
                message = join '' '' (drop 2 args), timezone = get_chat_timezone st cid\<rparr>"
  from assms(2) have run: "then_reply (schedule_job u tzdb ?row
                       (st\<lparr>schedules := schedules st @ [?row],
                           schedules_seq := schedules_seq st + 1\<rparr>))
             (''Scheduled repeating message (ID '' @ str_int (schedules_seq st + 1)
                @ '') every day at '' @ args ! 0 @ '' until '' @ args ! 1 @ ''.'')
           = (st', ev, None)"
    using d by (simp add: setrepeating_def Let_def insert_schedule_eq t len)
  have "consistent u tzdb st' \<and> schedules st' = schedules st @ [?row]"
    by (rule consistent_create [OF assms(1) _ _ _ run]) (simp_all add: t)
  then show ?thesis by simp
qed

lemma removeschedule_consistent:
  assumes "consistent u tzdb st"
  shows "consistent u tzdb (fst (removeschedule u cid args st))"
proof -
  have w: "jobs_wf st" using assms by (rule consistent_jobs_wf)
  have "pop_job k (st\<lparr>schedules := filter (\<lambda>r. rec_id r \<noteq> k) (schedules st)\<rparr>) = without k st" for k
    using w by (simp add: pop_job_without without_def)
  with assms consistent_without [OF assms] show ?thesis
    by (simp add: removeschedule_def Let_def split: option.splits)
qed

lemma settimezone_consistent:
  "consistent u tzdb st \<Longrightarrow> consistent u tzdb (fst (settimezone all_timezones cid args st))"
  by (simp add: settimezone_def Let_def consistent_def)

lemma run_job_consistent:
  assumes "consistent u tzdb st"
  shows "consistent u tzdb (fst (run_job u tzdb deliver now job st))"
proof -
  have w: "jobs_wf st" using assms by (rule consistent_jobs_wf)
  note c = cancel_schedule_without [OF w]
  show ?thesis
  proof (cases "job_callback job")
    case daily_cb
    with assms show ?thesis
      by (simp add: run_job_def daily_callback_def Let_def split: list.splits option.splits)
  next
    case countdown_cb
    with assms consistent_without [OF assms] show ?thesis
      by (simp add: run_job_def countdown_callback_def Let_def c
               split: list.splits option.splits)
  next
    case repeating_cb
    with assms consistent_without [OF assms] show ?thesis
      by (simp add: run_job_def repeating_callback_def Let_def c
               split: list.splits option.splits)
  qed
qed

lemma consistent_empty_bot: "consistent u tzdb empty_bot"
  by (simp add: consistent_def empty_bot_def)


text \<open>
  C9. The claim: after a schedule was created, a restart that restores from the stored
  tables gives an active record with the same fields and the same behaviour at every
  instant.

  A restart begins in \<open>disk st\<close>: the tables of \<open>st\<close>, an empty job queue and an empty
  \<open>active_jobs\<close>. From every state \<open>st\<close> in which every stored schedule is active,
  \<open>_restore_schedules\<close> run on \<open>disk st\<close> ends without an exception in the state \<open>st\<close>
  itself: the same rows, and for every row the same job (callback, hour, minute, zone
  and schedule id) in the job queue and in \<open>active_jobs\<close>, so that every run of a job
  at every instant is the run it was before the restart. The states in which every
  stored schedule is active are the states that the commands reach: the empty bot is
  one, and so is the state after every \<open>/setschedule\<close>, \<open>/setcountdown\<close> and
  \<open>/setrepeating\<close> that returns without an exception (which either rejects its input
  and changes nothing, or stores the new record, with the fields given, as the last
  row), after every \<open>/removeschedule\<close> and \<open>/settimezone\<close> and after every run of a
  job.
\<close>

theorem restart_restores_every_schedule:
  assumes "consistent u tzdb st"
  shows "restore_schedules u tzdb (disk st) = (st, map scheduled_log (schedules st), None)
       \<and> (\<forall>cid args st' ev. setschedule u tzdb cid args st = (st', ev, None) \<longrightarrow>
             consistent u tzdb st'
             \<and> (st' = st \<or>
                schedules st' = schedules st
                  @ [\<lparr>rec_id = schedules_seq st + 1, chat_id = cid, schedule_type = ''daily'',
                      time_str = hd args, end_date_str = None, message = join '' '' (tl args),
                      timezone = get_chat_timezone st cid\<rparr>]))
       \<and> (\<forall>cid args st' ev. setcountdown u tzdb cid args st = (st', ev, None) \<longrightarrow>
             consistent u tzdb st'
             \<and> (st' = st \<or>
                schedules st' = schedules st
                  @ [\<lparr>rec_id = schedules_seq st + 1, chat_id = cid,
                      schedule_type = ''countdown'', time_str = args ! 0,
                      end_date_str = Some (args ! 1), message = join '' '' (drop 2 args),
                      timezone = get_chat_timezone st cid\<rparr>]))
       \<and> (\<forall>cid args st' ev. setrepeating u tzdb cid args st = (st', ev, None) \<longrightarrow>
             consistent u tzdb st'
             \<and> (st' = st \<or>
                schedules st' = schedules st
                  @ [\<lparr>rec_id = schedules_seq st + 1, chat_id = cid,
                      schedule_type = ''repeating'', time_str = args ! 0,
                      end_date_str = Some (args ! 1), message = join '' '' (drop 2 args),
                      timezone = get_chat_timezone st cid\<rparr>]))
       \<and> (\<forall>cid args. consistent u tzdb (fst (removeschedule u cid args st)))
       \<and> (\<forall>zones cid args. consistent u tzdb (fst (settimezone zones cid args st)))
       \<and> (\<forall>deliver now job. consistent u tzdb (fst (run_job u tzdb deliver now job st)))
       \<and> consistent u tzdb empty_bot"
  using restore_schedules_disk [OF assms] setschedule_consistent [OF assms]
    setcountdown_consistent [OF assms] setrepeating_consistent [OF assms]
    removeschedule_consistent [OF assms] settimezone_consistent [OF assms]
    run_job_consistent [OF assms] consistent_empty_bot [of u tzdb]
  by blast

text \<open>
  The theorem at the example bot after its third schedule was created: the state on
  disk has the three rows and no job, and the restore gives back the live state with
  the jobs 1, 2 and 3 at 10:00, 09:00 and 08:30.
\<close>

theorem restart_restores_every_schedule_witness:
  "consistent example_unicode example_zones example_created
   \<and> map rec_id (schedules (disk example_created)) = [1, 2, 3]
   \<and> job_queue (disk example_created) = [] \<and> active_jobs (disk example_created) = []
   \<and> restore_schedules example_unicode example_zones (disk example_created) =
       (example_created,
        [Log ''Scheduled job 1 of type countdown for chat 100'',
         Log ''Scheduled job 2 of type repeating for chat 100'',
         Log ''Scheduled job 3 of type daily for chat 100''],
        None)
   \<and> map job_schedule_id (job_queue example_created) = [1, 2, 3]
   \<and> map (job_time \<circ> snd) (active_jobs example_created) =
       [\<lparr>hour = 10, minute = 0\<rparr>, \<lparr>hour = 9, minute = 0\<rparr>, \<lparr>hour = 8, minute = 30\<rparr>]"
proof -
  have c: "consistent example_unicode example_zones example_created" by code_simp
  have d: "map rec_id (schedules (disk example_created)) = [1, 2, 3]"
    "job_queue (disk example_created) = []" "active_jobs (disk example_created) = []"
    by code_simp+
  have l: "map scheduled_log (schedules example_created) =
       [Log ''Scheduled job 1 of type countdown for chat 100'',
        Log ''Scheduled job 2 of type repeating for chat 100'',
        Log ''Scheduled job 3 of type daily for chat 100'']"
    by code_simp
  have j: "map job_schedule_id (job_queue example_created) = [1, 2, 3]"
    "map (job_time \<circ> snd) (active_jobs example_created) =
       [\<lparr>hour = 10, minute = 0\<rparr>, \<lparr>hour = 9, minute = 0\<rparr>, \<lparr>hour = 8, minute = 30\<rparr>]"
    by code_simp+
  from restart_restores_every_schedule [OF c] c d l j show ?thesis by simp
qed

end
